theory Spec2Isabelle
  imports Main "HOL-Library.Word" "HOL-Library.Sublist" "HOL-Library.AList"
begin

section \<open>Path names\<close>

text \<open>
  The accessor of \<^verbatim>\<open>src/src/fs.cpp\<close> works on \<^verbatim>\<open>std::filesystem::path\<close> values and
  compares their \<^verbatim>\<open>string()\<close> forms. A path is modelled by its native string, on a POSIX
  platform: the separator is the slash, there are no root names, and a path is absolute
  exactly when it starts with a separator.
\<close>

type_synonym path = string
type_synonym u8 = "8 word"

definition is_absolute :: "path \<Rightarrow> bool" where
  "is_absolute p = (case p of [] \<Rightarrow> False | c # _ \<Rightarrow> c = CHR ''/'')"

definition has_filename :: "path \<Rightarrow> bool" where
  "has_filename p = (p \<noteq> [] \<and> last p \<noteq> CHR ''/'')"

text \<open>
  \<^verbatim>\<open>operator/\<close> of the path type (\<^verbatim>\<open>[fs.path.append]\<close> of the C++ standard): an absolute
  right operand replaces the left operand; otherwise a separator is added when the left
  operand ends in a file name, and the right operand's string is appended.
\<close>

definition path_append :: "path \<Rightarrow> path \<Rightarrow> path" where
  "path_append p q =
     (if is_absolute q then q
      else if has_filename p then p @ [CHR ''/''] @ q
      else p @ q)"

text \<open>
  The pieces of a string between its separators, and the elements a path iterates over after
  its root directory: the non-empty pieces, followed by one empty element when the path ends
  in a separator that follows a file name.
\<close>

fun pieces :: "string \<Rightarrow> string list" where
  "pieces [] = [[]]"
| "pieces (c # cs) =
     (if c = CHR ''/'' then [] # pieces cs
      else (case pieces cs of [] \<Rightarrow> [[c]] | w # ws \<Rightarrow> (c # w) # ws))"

definition elems :: "path \<Rightarrow> string list" where
  "elems p =
     (let names = filter (\<lambda>w. w \<noteq> []) (pieces p)
      in if names \<noteq> [] \<and> last (pieces p) = [] then names @ [[]] else names)"

text \<open>
  One step of name resolution from a position, itself a list of names below the top
  directory: the empty element and dot stay, dot-dot goes to the parent (the top directory
  is its own parent), a name goes down.
\<close>

definition step :: "string list \<Rightarrow> string \<Rightarrow> string list" where
  "step st c =
     (if c = [] \<or> c = ''.'' then st
      else if c = ''..'' then butlast st
      else st @ [c])"

definition norm :: "string list \<Rightarrow> string list \<Rightarrow> string list" where
  "norm st cs = foldl step st cs"

definition render :: "string list \<Rightarrow> path" where
  "render st = (if st = [] then ''/'' else concat (map (\<lambda>c. CHR ''/'' # c) st))"

definition trailing :: "path \<Rightarrow> bool" where
  "trailing p = (elems p \<noteq> [] \<and> last (elems p) \<in> {[], ''.'', ''..''})"

section \<open>The file system\<close>

text \<open>
  The hierarchy under the top directory: a regular file holds bytes, a directory holds named
  entries in the order in which the platform enumerates them. There are no symbolic links,
  no permissions and no full disk; a relative path name is resolved from the top directory.
\<close>

datatype node = File "u8 list" | Dir "(string \<times> node) list"

fun lookup :: "node \<Rightarrow> string list \<Rightarrow> node option" where
  "lookup n [] = Some n"
| "lookup n (c # cs) =
     (case n of
        File _ \<Rightarrow> None
      | Dir es \<Rightarrow> (case map_of es c of None \<Rightarrow> None | Some m \<Rightarrow> lookup m cs))"

definition is_dir_at :: "node \<Rightarrow> string list \<Rightarrow> bool" where
  "is_dir_at t st = (case lookup t st of Some (Dir _) \<Rightarrow> True | _ \<Rightarrow> False)"

text \<open>
  Resolving a path name as \<^verbatim>\<open>stat\<close> does: every element is applied to a position that
  must be a directory, and the position reached must exist. The empty path names nothing.
\<close>

fun walk :: "node \<Rightarrow> string list \<Rightarrow> string list \<Rightarrow> string list option" where
  "walk t st [] = (if lookup t st = None then None else Some st)"
| "walk t st (c # cs) = (if is_dir_at t st then walk t (step st c) cs else None)"

definition resolve :: "node \<Rightarrow> path \<Rightarrow> string list option" where
  "resolve t p = (if p = [] then None else walk t [] (elems p))"

definition fs_exists :: "node \<Rightarrow> path \<Rightarrow> bool" where
  "fs_exists t p = (resolve t p \<noteq> None)"

definition fs_is_directory :: "node \<Rightarrow> path \<Rightarrow> bool" where
  "fs_is_directory t p = (case resolve t p of None \<Rightarrow> False | Some st \<Rightarrow> is_dir_at t st)"

text \<open>
  \<^verbatim>\<open>weakly_canonical\<close> (\<^verbatim>\<open>[fs.op.weakly.canonical]\<close>): the canonical path of the leading
  elements that exist, followed by the elements that do not, in normal form
  (\<^verbatim>\<open>[fs.path.generic]\<close>). Without symbolic links the names of the result are those of the
  lexical normal form. A path that exists is returned as \<^verbatim>\<open>canonical\<close> returns it,
  without a trailing separator; for one that does not, the normal form keeps a separator
  after the last name when the path ends in a separator, a dot or a dot-dot
  (\<^verbatim>\<open>/a/b/.\<close> becomes \<^verbatim>\<open>/a/b/\<close>).
\<close>

definition weakly_canonical :: "node \<Rightarrow> path \<Rightarrow> path" where
  "weakly_canonical t p =
     (if p = [] then []
      else let st = norm [] (elems p)
           in if fs_exists t p \<or> st = [] \<or> \<not> trailing p then render st
              else render st @ [CHR ''/''])"

subsection \<open>Changing the hierarchy\<close>


fun del :: "node \<Rightarrow> string list \<Rightarrow> node" where
  "del n [] = n"
| "del n (c # cs) =
     (case n of
        File _ \<Rightarrow> n
      | Dir es \<Rightarrow>
          if cs = [] then Dir (AList.delete c es)
          else (case map_of es c of
                  None \<Rightarrow> n
                | Some k \<Rightarrow> Dir (AList.update c (del k cs) es)))"











subsection \<open>Enumerating directories\<close>

text \<open>
  \<^verbatim>\<open>directory_iterator\<close> yields the entries of a directory, each with the path obtained by
  appending its name; \<^verbatim>\<open>recursive_directory_iterator\<close> yields every entry of the subtree,
  a directory before its own entries.
\<close>

definition entries_of :: "node \<Rightarrow> string list \<Rightarrow> (string \<times> node) list" where
  "entries_of t st = (case lookup t st of Some (Dir es) \<Rightarrow> es | _ \<Rightarrow> [])"

definition directory_iterator :: "node \<Rightarrow> path \<Rightarrow> (path \<times> node) list" where
  "directory_iterator t p =
     (case resolve t p of
        None \<Rightarrow> []
      | Some st \<Rightarrow> map (\<lambda>e. (path_append p (fst e), snd e)) (entries_of t st))"




text \<open>
  \<^verbatim>\<open>lexically_relative\<close> (\<^verbatim>\<open>[fs.path.gen]\<close>) and \<^verbatim>\<open>relative\<close>
  (\<^verbatim>\<open>[fs.op.relative]\<close>): the common leading elements are dropped, one dot-dot is written for
  every name left in the base, and the elements left in the path follow.
\<close>

fun mismatch :: "string list \<Rightarrow> string list \<Rightarrow> string list \<times> string list" where
  "mismatch (x # xs) (y # ys) = (if x = y then mismatch xs ys else (x # xs, y # ys))"
| "mismatch xs ys = (xs, ys)"

definition lexically_relative :: "path \<Rightarrow> path \<Rightarrow> path" where
  "lexically_relative p base =
     (if is_absolute p \<noteq> is_absolute base then []
      else let a = fst (mismatch (elems p) (elems base));
               b = snd (mismatch (elems p) (elems base));
               n = int (length (filter (\<lambda>c. c \<noteq> [] \<and> c \<noteq> ''.'' \<and> c \<noteq> ''..'') b))
                   - int (length (filter (\<lambda>c. c = ''..'') b))
           in if a = [] \<and> b = [] then ''.''
              else if n < 0 then []
              else if n = 0 \<and> (a = [] \<or> hd a = []) then ''.''
              else foldl path_append [] (replicate (nat n) ''..'' @ a))"

definition fs_relative :: "node \<Rightarrow> path \<Rightarrow> path \<Rightarrow> path" where
  "fs_relative t p base = lexically_relative (weakly_canonical t p) (weakly_canonical t base)"

section \<open>The accessor\<close>

datatype error =
    Empty_path
  | Path_escapes_root
  | Failed_to_open_file path
  | Failed_to_read_file
  | Failed_to_create_directories string
  | Failed_to_open_file_for_writing path
  | Failed_to_write_file
  | Failed_to_remove_file string
  | Not_a_directory
  | Failed_to_list_directory string
  | Uncaught_filesystem_error string

text \<open>
  \<^verbatim>\<open>Filesystem::validate_path\<close>. The root is the member \<^verbatim>\<open>m_Root\<close>, the first
  argument of every operation below.
\<close>

definition validate_path :: "node \<Rightarrow> path \<Rightarrow> string \<Rightarrow> error + path" where
  "validate_path t root relative_path =
     (if relative_path = [] then Inl Empty_path
      else let abs_path = weakly_canonical t (path_append root relative_path);
               root_str = root;
               abs_str = abs_path
           in if length abs_str < length root_str \<or> take (length root_str) abs_str \<noteq> root_str
              then Inl Path_escapes_root
              else Inr abs_path)"





text \<open>
  \<^verbatim>\<open>Filesystem::list\<close> and \<^verbatim>\<open>Filesystem::list_recursive\<close>. Neither iterator nor
  \<^verbatim>\<open>relative\<close> reports an error in this file system, so every entry is kept.
\<close>

definition list :: "node \<Rightarrow> path \<Rightarrow> string \<Rightarrow> error + string list" where
  "list t root relative_dir =
     (case (if relative_dir = [] then Inr root else validate_path t root relative_dir) of
        Inl e \<Rightarrow> Inl e
      | Inr dir_path \<Rightarrow>
          if \<not> fs_exists t dir_path then Inr []
          else if \<not> fs_is_directory t dir_path then Inl Not_a_directory
          else Inr (map (\<lambda>entry. fs_relative t (fst entry) root) (directory_iterator t dir_path)))"


text \<open>\<^verbatim>\<open>Filesystem::absolute\<close>.\<close>

definition absolute :: "path \<Rightarrow> string \<Rightarrow> path" where
  "absolute root relative_path = path_append root relative_path"

section \<open>Predicates and example states used in the statements\<close>

text \<open>
  A list of names is clean when every name could be a directory entry: not empty, not dot,
  not dot-dot and without a separator. A path is canonical when it is the rendering of its
  own normal form: absolute, without dot or dot-dot elements, without repeated or trailing
  separators.
\<close>

definition slashfree :: "string \<Rightarrow> bool" where
  "slashfree w = (CHR ''/'' \<notin> set w)"

definition clean :: "string list \<Rightarrow> bool" where
  "clean st = (\<forall>c \<in> set st. c \<noteq> [] \<and> c \<noteq> ''.'' \<and> c \<noteq> ''..'' \<and> slashfree c)"


text \<open>The file names of a path, without the empty element of a trailing separator.\<close>

definition names_of :: "path \<Rightarrow> string list" where
  "names_of p = filter (\<lambda>w. w \<noteq> []) (pieces p)"

text \<open>
  An example hierarchy: \<^verbatim>\<open>/a/b/f\<close>, the directories \<^verbatim>\<open>/a/bc\<close> and
  \<^verbatim>\<open>/a/b-evil\<close> beside the directory \<^verbatim>\<open>/a/b\<close>, and \<^verbatim>\<open>/etc/passwd\<close>.
\<close>

definition tree_ab :: node where
  "tree_ab =
     Dir [(''a'', Dir [(''b'', Dir [(''f'', File [1, 2])]),
                       (''bc'', Dir []),
                       (''b-evil'', Dir [(''secret'', File [0])])]),
          (''etc'', Dir [(''passwd'', File [114, 111, 111, 116])])]"




section \<open>Parsing and rendering path names\<close>

lemma pieces_nonempty [simp]: "pieces s \<noteq> []"
  by (cases s) (auto split: list.splits)

lemma pieces_slashfree: "w \<in> set (pieces s) \<Longrightarrow> slashfree w"
proof (induction s arbitrary: w)
  case Nil
  then show ?case by (simp add: slashfree_def)
next
  case (Cons c cs)
  show ?case
  proof (cases "c = CHR ''/''")
    case True
    with Cons show ?thesis by (auto simp: slashfree_def)
  next
    case False
    obtain h r where hr: "pieces cs = h # r" by (cases "pieces cs") auto
    with Cons False show ?thesis by (auto simp: slashfree_def)
  qed
qed







lemma render_absolute [simp]: "is_absolute (render st)"
  by (cases st) (auto simp: render_def is_absolute_def)


subsection \<open>Normal forms\<close>

lemma norm_Nil [simp]: "norm st [] = st"
  by (simp add: norm_def)

lemma norm_Cons [simp]: "norm st (c # cs) = norm (step st c) cs"
  by (simp add: norm_def)


lemma clean_Nil [simp]: "clean []"
  by (simp add: clean_def)

lemma clean_append [simp]: "clean (xs @ ys) = (clean xs \<and> clean ys)"
  by (auto simp: clean_def)







subsection \<open>Joining\<close>





section \<open>Resolution in the hierarchy\<close>




lemma walk_exists: "walk t a cs = Some st \<Longrightarrow> lookup t st \<noteq> None"
  by (induction cs arbitrary: a) (auto split: if_splits)










section \<open>Opening, writing and canonical paths\<close>

lemma not_has_filename_slash [simp]: "\<not> has_filename (xs @ [CHR ''/''])"
  by (simp add: has_filename_def)





section \<open>Enumeration and relative paths\<close>











lemma names_of_slashfree: "c \<in> set (names_of p) \<Longrightarrow> slashfree c"
  by (auto simp: names_of_def dest: pieces_slashfree)










section \<open>Creating directories and parent paths\<close>









section \<open>Writing, then reading\<close>




section \<open>The claims\<close>

text \<open>
  Claim C1. A candidate whose string merely starts with the root's string, without a
  separator after it, ought to be rejected. The containment check compares the first
  characters of the candidate with the root and nothing more: with the root \<^verbatim>\<open>/a/b\<close>,
  the input \<^verbatim>\<open>../bc\<close> is normalized to \<^verbatim>\<open>/a/bc\<close>, a sibling of the root, and is
  returned as a validated path.
\<close>

theorem validate_path_accepts_sibling_sharing_prefix:
  "validate_path tree_ab ''/a/b'' ''../bc'' = Inr ''/a/bc''"
  by (simp add: validate_path_def weakly_canonical_def path_append_def is_absolute_def
      has_filename_def elems_def step_def norm_def render_def trailing_def)

text \<open>
  Claim C2. A relative path whose dot-dot elements climb above the root ought to be rejected
  whatever its depth and whether or not its directories exist. In every state of the file
  system, the input \<^verbatim>\<open>x/y/../../../b-evil/secret\<close> under the root \<^verbatim>\<open>/a/b\<close> leaves
  the root through \<^verbatim>\<open>/a\<close> and is accepted, as \<^verbatim>\<open>/a/b-evil/secret\<close>.
\<close>

theorem validate_path_accepts_climb_into_sibling:
  "validate_path t ''/a/b'' ''x/y/../../../b-evil/secret'' = Inr ''/a/b-evil/secret''"
  by (simp add: validate_path_def weakly_canonical_def path_append_def is_absolute_def
      has_filename_def elems_def step_def norm_def render_def trailing_def)

text \<open>
  Claim C3. An absolute input that does not lie in the root ought to be rejected. The join
  replaces the root by an absolute input, and the check then accepts the absolute input
  \<^verbatim>\<open>/a/b-evil/secret\<close> under the root \<^verbatim>\<open>/a/b\<close>, in every state of the file system.
\<close>

theorem validate_path_accepts_absolute_sibling:
  "validate_path t ''/a/b'' ''/a/b-evil/secret'' = Inr ''/a/b-evil/secret''"
  by (simp add: validate_path_def weakly_canonical_def path_append_def is_absolute_def
      has_filename_def elems_def step_def norm_def render_def trailing_def)













text \<open>
  Claim C10. \<^verbatim>\<open>absolute\<close> returns the root joined with its argument by the platform's
  join; for an argument that is itself absolute the result is the argument, without the
  root.
\<close>

theorem absolute_is_join:
  "absolute root p = path_append root p \<and> (is_absolute p \<longrightarrow> absolute root p = p)"
  by (simp add: absolute_def path_append_def)

theorem absolute_is_join_witness:
  "is_absolute ''/etc/passwd'' \<and> absolute ''/a/b'' ''/etc/passwd'' = ''/etc/passwd''
   \<and> absolute ''/a/b'' ''c/d.txt'' = ''/a/b/c/d.txt''"
proof -
  have a: "is_absolute ''/etc/passwd''" by (simp add: is_absolute_def)
  have "absolute ''/a/b'' ''/etc/passwd'' = ''/etc/passwd''"
    using absolute_is_join [of "''/a/b''" "''/etc/passwd''"] a by blast
  moreover have "absolute ''/a/b'' ''c/d.txt'' = ''/a/b/c/d.txt''"
    using absolute_is_join [of "''/a/b''" "''c/d.txt''"]
    by (simp add: path_append_def is_absolute_def has_filename_def del: absolute_def)
  ultimately show ?thesis using a by simp
qed

end
